theory Spec2Isabelle
  imports Main "HOL-Library.Sublist"
begin

section \<open>Python values and exceptions\<close>

text \<open>
  Every exception the modelled code can raise is a value of \<open>pyerr\<close>; a function that can
  raise returns \<open>pyerr + 'a\<close>, with \<open>Inl\<close> for the exception.
\<close>

datatype db_error =
    UniqueViolation
  | StringDataRightTruncation
  | CheckViolation
  | ForeignKeyViolation
  | InvalidDatetime

datatype pyerr =
    TypeError
  | KeyError
  | IndexError
  | ValueError
  | AttributeError
  | UnboundLocalError
  | RequestException
  | JSONDecodeError
  | DatabaseError db_error

text \<open>Sequencing two steps, the second of which runs only when the first did not raise.\<close>

definition then_do :: "pyerr + 'a \<Rightarrow> ('a \<Rightarrow> pyerr + 'b) \<Rightarrow> pyerr + 'b" where
  "then_do m f = (case m of Inl e \<Rightarrow> Inl e | Inr x \<Rightarrow> f x)"

text \<open>A \<open>for\<close> loop whose body updates a state and may raise.\<close>

fun for_each :: "('s \<Rightarrow> 'a \<Rightarrow> pyerr + 's) \<Rightarrow> 's \<Rightarrow> 'a list \<Rightarrow> pyerr + 's" where
  "for_each body s [] = Inr s"
| "for_each body s (x # xs) = then_do (body s x) (\<lambda>s'. for_each body s' xs)"

text \<open>\<open>xs[i]\<close> for a non-negative literal index: IndexError when out of range.\<close>

definition py_index :: "'a list \<Rightarrow> nat \<Rightarrow> pyerr + 'a" where
  "py_index xs i = (if i < length xs then Inr (xs ! i) else Inl IndexError)"

subsection \<open>str.split with a separator\<close>

text \<open>
  \<open>s.split(sep)\<close> scans from the left and cuts at every non-overlapping occurrence of
  \<open>sep\<close>; \<open>cur\<close> is the piece being collected. An empty separator raises ValueError.
\<close>

fun split_from :: "string \<Rightarrow> string \<Rightarrow> string \<Rightarrow> string list" where
  "split_from sep cur [] = [cur]"
| "split_from sep cur (c # cs) =
     (if sep \<noteq> [] \<and> prefix sep (c # cs)
      then cur # split_from sep [] (drop (length sep - 1) cs)
      else split_from sep (cur @ [c]) cs)"

definition py_split :: "string \<Rightarrow> string \<Rightarrow> pyerr + string list" where
  "py_split s sep = (if sep = [] then Inl ValueError else Inr (split_from sep [] s))"

text \<open>\<open>occurs sep s\<close>: the separator occurs somewhere in \<open>s\<close> as a contiguous block.\<close>

fun occurs :: "string \<Rightarrow> string \<Rightarrow> bool" where
  "occurs sep [] = (sep = [])"
| "occurs sep (c # cs) = (prefix sep (c # cs) \<or> occurs sep cs)"

section \<open>web\_logger.py: the scraper's field clean-up\<close>

text \<open>Line 57: \<open>artist.text.split(' live')[0]\<close>.\<close>

definition artist_field :: "string \<Rightarrow> pyerr + string" where
  "artist_field label =
     (case py_split label '' live'' of
        Inl e \<Rightarrow> Inl e
      | Inr pieces \<Rightarrow> py_index pieces 0)"

text \<open>
  The clean-up as the specification words it: a trailing \<open>" live"\<close> suffix is removed and
  the label is otherwise unchanged.
\<close>

definition strip_trailing_live :: "string \<Rightarrow> string" where
  "strip_trailing_live label =
     (if suffix '' live'' label then take (length label - 5) label else label)"

section \<open>JSON payloads as Python values\<close>

text \<open>
  What \<open>response.json()\<close> and \<open>json.loads\<close> return: \<open>None\<close>, a bool, a number, a str, a
  list or a dict. A dict is the list of its items in order. The code never computes with a
  number (it only tests truthiness), so numbers are integers here.
\<close>

datatype json =
    JNull
  | JBool bool
  | JNum int
  | JStr string
  | JArr "json list"
  | JObj "(string \<times> json) list"

text \<open>\<open>key in v\<close> for a str key: membership in a dict's keys or a list, substring of a str.\<close>

fun py_contains :: "string \<Rightarrow> json \<Rightarrow> pyerr + bool" where
  "py_contains key (JObj items) = Inr (key \<in> fst ` set items)"
| "py_contains key (JArr xs) = Inr (JStr key \<in> set xs)"
| "py_contains key (JStr s) = Inr (occurs key s)"
| "py_contains key v = Inl TypeError"

text \<open>\<open>v[key]\<close> for a str key.\<close>

fun py_getitem :: "json \<Rightarrow> string \<Rightarrow> pyerr + json" where
  "py_getitem (JObj items) key =
     (case map_of items key of None \<Rightarrow> Inl KeyError | Some x \<Rightarrow> Inr x)"
| "py_getitem v key = Inl TypeError"

text \<open>\<open>v[0]\<close>. The keys of a parsed JSON object are strings, so \<open>0\<close> is never among them.\<close>

fun py_first :: "json \<Rightarrow> pyerr + json" where
  "py_first (JArr []) = Inl IndexError"
| "py_first (JArr (x # xs)) = Inr x"
| "py_first (JStr []) = Inl IndexError"
| "py_first (JStr (c # cs)) = Inr (JStr [c])"
| "py_first (JObj items) = Inl KeyError"
| "py_first v = Inl TypeError"

text \<open>Truthiness, as \<open>if v:\<close> tests it.\<close>

fun py_truthy :: "json \<Rightarrow> bool" where
  "py_truthy JNull = False"
| "py_truthy (JBool b) = b"
| "py_truthy (JNum n) = (n \<noteq> 0)"
| "py_truthy (JStr s) = (s \<noteq> [])"
| "py_truthy (JArr xs) = (xs \<noteq> [])"
| "py_truthy (JObj items) = (items \<noteq> [])"

text \<open>\<open>len(v)\<close>.\<close>

fun py_len :: "json \<Rightarrow> pyerr + nat" where
  "py_len (JArr xs) = Inr (length xs)"
| "py_len (JStr s) = Inr (length s)"
| "py_len (JObj items) = Inr (length items)"
| "py_len v = Inl TypeError"

text \<open>The values a \<open>for\<close> loop over \<open>v\<close> visits: elements, characters, or a dict's keys.\<close>

fun py_iter :: "json \<Rightarrow> pyerr + json list" where
  "py_iter (JArr xs) = Inr xs"
| "py_iter (JStr s) = Inr (map (\<lambda>c. JStr [c]) s)"
| "py_iter (JObj items) = Inr (map (\<lambda>kv. JStr (fst kv)) items)"
| "py_iter v = Inl TypeError"

section \<open>api\_logger.py\<close>

text \<open>
  A request is identified by its endpoint and the value formatted into its URL. The web is
  a function from requests to what fetching and decoding gives: the exception raised, or
  the decoded payload.
\<close>

datatype request =
    ArtistQuery string
  | ArtistLookup json
  | ReleaseGroupQuery string
  | SpotifyToken
  | SpotifySearch string
  | SpotifyTopTracks json

type_synonym web = "request \<Rightarrow> pyerr + json"

subsection \<open>ArtistInfos\<close>

text \<open>
  \<open>api_request\<close>: a \<open>RequestException\<close> is caught and reported, and the method then ends
  without a \<open>return\<close>, so its value is \<open>None\<close>. The error \<open>response.json()\<close> raises on a
  body that is not JSON is a \<open>RequestException\<close> as well, so it is caught too. Any other
  exception propagates.
\<close>

definition api_request :: "web \<Rightarrow> request \<Rightarrow> pyerr + json" where
  "api_request w url =
     (case w url of
        Inl RequestException \<Rightarrow> Inr JNull
      | Inl JSONDecodeError \<Rightarrow> Inr JNull
      | Inl e \<Rightarrow> Inl e
      | Inr payload \<Rightarrow> Inr payload)"

definition get_artist_id :: "web \<Rightarrow> string \<Rightarrow> pyerr + json" where
  "get_artist_id w name =
     then_do (api_request w (ArtistQuery name)) (\<lambda>query_data.
     then_do (py_contains ''artists'' query_data) (\<lambda>has_key.
       if has_key then
         then_do (py_getitem query_data ''artists'') (\<lambda>query_results.
           if py_truthy query_results then
             then_do (py_first query_results) (\<lambda>first. py_getitem first ''id'')
           else Inr JNull)
       else Inr JNull))"

definition get_artist_area :: "web \<Rightarrow> json \<Rightarrow> pyerr + json" where
  "get_artist_area w mb_id =
     then_do (api_request w (ArtistLookup mb_id)) (\<lambda>artist_data.
     then_do (py_contains ''area'' artist_data) (\<lambda>has_key.
       if has_key then
         then_do (py_getitem artist_data ''area'') (\<lambda>area.
           if area \<noteq> JNull then py_getitem area ''name'' else Inr JNull)
       else Inr JNull))"

text \<open>The loop of \<open>get_album_names\<close> over the release groups, \<open>albums\<close> being the list so far.\<close>

fun album_loop :: "string \<Rightarrow> json list \<Rightarrow> json list \<Rightarrow> pyerr + json list" where
  "album_loop name [] albums = Inr albums"
| "album_loop name (release_group # rest) albums =
     then_do (py_getitem release_group ''artist-credit'') (\<lambda>credit.
     then_do (py_first credit) (\<lambda>first.
     then_do (py_getitem first ''name'') (\<lambda>credited.
       if credited = JStr name then
         then_do (py_getitem release_group ''title'') (\<lambda>title.
           album_loop name rest (albums @ [title]))
       else album_loop name rest albums)))"

definition get_album_names :: "web \<Rightarrow> string \<Rightarrow> pyerr + json list" where
  "get_album_names w name =
     then_do (api_request w (ReleaseGroupQuery name)) (\<lambda>album_data.
     then_do (py_contains ''release-groups'' album_data) (\<lambda>has_key.
       if has_key then
         then_do (py_getitem album_data ''release-groups'') (\<lambda>release_groups.
         then_do (py_iter release_groups) (\<lambda>items. album_loop name items []))
       else Inr []))"

text \<open>
  A release group of the documented shape, read off the payload itself: the name of its
  first credited artist and its title.
\<close>

fun release_group_view :: "json \<Rightarrow> (string \<times> json) option" where
  "release_group_view (JObj items) =
     (case (map_of items ''artist-credit'', map_of items ''title'') of
        (Some (JArr (JObj credit # more)), Some title) \<Rightarrow>
          (case map_of credit ''name'' of
             Some (JStr credited) \<Rightarrow> Some (credited, title)
           | _ \<Rightarrow> None)
      | _ \<Rightarrow> None)"
| "release_group_view v = None"

subsection \<open>SpotifyAPI\<close>

text \<open>
  The constructor exchanges the client credentials for a token and builds the header
  \<open>'Bearer ' + token\<close>, which needs the token to be a str.
\<close>

definition spotify_init :: "web \<Rightarrow> pyerr + string" where
  "spotify_init w =
     then_do (w SpotifyToken) (\<lambda>json_result.
     then_do (py_getitem json_result ''access_token'') (\<lambda>token.
       case token of JStr t \<Rightarrow> Inr (''Bearer '' @ t) | _ \<Rightarrow> Inl TypeError))"

definition search_artist :: "web \<Rightarrow> string \<Rightarrow> pyerr + json" where
  "search_artist w artist_name =
     then_do (w (SpotifySearch artist_name)) (\<lambda>loaded.
     then_do (py_getitem loaded ''artists'') (\<lambda>artists.
     then_do (py_getitem artists ''items'') (\<lambda>json_result.
     then_do (py_len json_result) (\<lambda>n.
       if n = 0 then Inr JNull
       else then_do (py_first json_result) (\<lambda>first. py_getitem first ''id'')))))"

definition get_songs :: "web \<Rightarrow> json \<Rightarrow> pyerr + json" where
  "get_songs w artist_id =
     then_do (w (SpotifyTopTracks artist_id)) (\<lambda>loaded. py_getitem loaded ''tracks'')"

section \<open>main.py: the interactive top-tracks step\<close>

text \<open>
  What the step prints: the header naming the typed artist, then one numbered line per
  song. A printed line is kept as the values formatted into it.
\<close>

datatype printed =
    TopTracksHeader string
  | TrackLine nat json

fun print_songs :: "nat \<Rightarrow> json list \<Rightarrow> pyerr + printed list" where
  "print_songs idx [] = Inr []"
| "print_songs idx (song # songs) =
     then_do (py_getitem song ''name'') (\<lambda>name.
     then_do (print_songs (idx + 1) songs) (\<lambda>lines.
       Inr (TrackLine (idx + 1) name # lines)))"

definition top_tracks_step :: "web \<Rightarrow> string \<Rightarrow> pyerr + printed list" where
  "top_tracks_step w input_artist =
     then_do (spotify_init w) (\<lambda>header.
     then_do (search_artist w input_artist) (\<lambda>spotify_id.
     then_do (get_songs w spotify_id) (\<lambda>songs.
     then_do (py_iter songs) (\<lambda>items.
     then_do (print_songs 0 items) (\<lambda>lines.
       Inr (TopTracksHeader input_artist # lines))))))"

text \<open>The name of a song of the documented shape, read off the payload itself.\<close>

fun song_name :: "json \<Rightarrow> json option" where
  "song_name (JObj items) = map_of items ''name''"
| "song_name v = None"

text \<open>Two webs used as concrete inputs below.\<close>

definition offline_web :: web where
  "offline_web = (\<lambda>url. Inl RequestException)"

definition no_match_web :: web where
  "no_match_web = (\<lambda>url. case url of
       SpotifyToken \<Rightarrow> Inr (JObj [(''access_token'', JStr ''token'')])
     | SpotifySearch q \<Rightarrow> Inr (JObj [(''artists'', JObj [(''items'', JArr [])])])
     | SpotifyTopTracks i \<Rightarrow>
         Inr (JObj [(''error'', JObj [(''status'', JNum 400), (''message'', JStr ''Invalid base62 id'')])])
     | _ \<Rightarrow> Inl RequestException)"

definition two_artists_groups :: "json list" where
  "two_artists_groups =
     [JObj [(''title'', JStr ''First''),
            (''artist-credit'', JArr [JObj [(''name'', JStr ''Artist A'')]])],
      JObj [(''title'', JStr ''Second''),
            (''artist-credit'', JArr [JObj [(''name'', JStr ''Artist B'')]])],
      JObj [(''title'', JStr ''Third''),
            (''artist-credit'', JArr [JObj [(''name'', JStr ''Artist A'')],
                                      JObj [(''name'', JStr ''Artist B'')]])]]"

definition two_artists_web :: web where
  "two_artists_web =
     (\<lambda>url. Inr (JObj [(''count'', JNum 3), (''release-groups'', JArr two_artists_groups)]))"

definition found_web :: web where
  "found_web = (\<lambda>url. case url of
       SpotifyToken \<Rightarrow> Inr (JObj [(''access_token'', JStr ''token'')])
     | SpotifySearch q \<Rightarrow>
         Inr (JObj [(''artists'', JObj [(''items'', JArr [JObj [(''id'', JStr ''5HFkc3t0HYETL4JeEbDB1v'')]])])])
     | SpotifyTopTracks i \<Rightarrow>
         Inr (JObj [(''tracks'', JArr [JObj [(''name'', JStr ''Army of the Night'')],
                                      JObj [(''name'', JStr ''Demons Are a Girl's Best Friend'')]])])
     | _ \<Rightarrow> Inl RequestException)"

section \<open>web\_logger.py: ConcertsData.collect\_data\<close>

subsection \<open>The page\<close>

text \<open>
  An element of the parsed page, as far as the scraper looks at it: the value of its
  \<open>class\<close> attribute and its text. A month section is the list of its descendants in
  document order; \<open>find_all(class_=c)\<close> keeps those whose class attribute is \<open>c\<close>.
\<close>

record element =
  el_class :: string
  el_text :: string

type_synonym month_section = "element list"

definition find_all :: "string \<Rightarrow> month_section \<Rightarrow> element list" where
  "find_all c sec = filter (\<lambda>e. el_class e = c) sec"

definition date_class :: string where
  "date_class = ''ph-concerts-list-col ph-concerts-list-date''"

definition artist_class :: string where
  "artist_class = ''ph-concerts-list-col ph-concerts-list-artist''"

definition location_class :: string where
  "location_class = ''ph-concerts-list-col ph-concerts-list-location''"

subsection \<open>The three lists\<close>

text \<open>Line 53: \<open>date.text.split(' ')[1]\<close>; line 61: \<open>location.text.split(',')[0]\<close>.\<close>

definition date_field :: "string \<Rightarrow> pyerr + string" where
  "date_field label = then_do (py_split label '' '') (\<lambda>pieces. py_index pieces 1)"

definition location_field :: "string \<Rightarrow> pyerr + string" where
  "location_field label = then_do (py_split label '','') (\<lambda>pieces. py_index pieces 0)"

text \<open>One inner loop: the field of each element's text is appended to the list so far.\<close>

fun append_each :: "(string \<Rightarrow> pyerr + string) \<Rightarrow> element list \<Rightarrow> string list \<Rightarrow> pyerr + string list" where
  "append_each field [] acc = Inr acc"
| "append_each field (e # es) acc =
     then_do (field (el_text e)) (\<lambda>v. append_each field es (acc @ [v]))"

text \<open>The loop over the months (lines 50 to 61), on the three lists built so far.\<close>

fun month_loop ::
  "month_section list \<Rightarrow> string list \<times> string list \<times> string list \<Rightarrow>
   pyerr + (string list \<times> string list \<times> string list)" where
  "month_loop [] acc = Inr acc"
| "month_loop (month # months) (dates, artists, locations) =
     then_do (append_each date_field (find_all date_class month) dates) (\<lambda>dates'.
     then_do (append_each artist_field (find_all artist_class month) artists) (\<lambda>artists'.
     then_do (append_each location_field (find_all location_class month) locations) (\<lambda>locations'.
       month_loop months (dates', artists', locations'))))"

text \<open>
  The concert entries of a month, in source order: its i-th date, artist and location
  elements together.
\<close>

definition concert_entries :: "month_section \<Rightarrow> (element \<times> element \<times> element) list" where
  "concert_entries month =
     zip (find_all date_class month)
         (zip (find_all artist_class month) (find_all location_class month))"

definition well_formed :: "month_section \<Rightarrow> bool" where
  "well_formed month \<longleftrightarrow>
     length (find_all date_class month) = length (find_all artist_class month) \<and>
     length (find_all artist_class month) = length (find_all location_class month)"

subsection \<open>Dates\<close>

record date =
  dt_year :: nat
  dt_month :: nat
  dt_day :: nat

definition is_digit :: "char \<Rightarrow> bool" where
  "is_digit c \<longleftrightarrow> c \<in> set ''0123456789''"

definition digit_val :: "char \<Rightarrow> nat" where
  "digit_val c = of_char c - 48"

definition digit_char :: "nat \<Rightarrow> char" where
  "digit_char n = ''0123456789'' ! n"

definition number_of :: "string \<Rightarrow> nat" where
  "number_of s = foldl (\<lambda>n c. 10 * n + digit_val c) 0 s"

text \<open>
  What the directives of the format \<open>%d.%m.%Y\<close> accept: \<open>%d\<close> is
  \<open>3[0-1]|[1-2]\d|0[1-9]|[1-9]| [1-9]\<close>, \<open>%m\<close> is \<open>1[0-2]|0[1-9]|[1-9]\<close> and \<open>%Y\<close> is four
  digits.
\<close>

definition nonzero_digit :: "char \<Rightarrow> bool" where
  "nonzero_digit c \<longleftrightarrow> is_digit c \<and> c \<noteq> CHR ''0''"

fun day_value :: "string \<Rightarrow> nat option" where
  "day_value [a] = (if nonzero_digit a then Some (digit_val a) else None)"
| "day_value [a, b] =
     (if a = CHR ''3'' \<and> (b = CHR ''0'' \<or> b = CHR ''1'') then Some (30 + digit_val b)
      else if (a = CHR ''1'' \<or> a = CHR ''2'') \<and> is_digit b then Some (10 * digit_val a + digit_val b)
      else if (a = CHR ''0'' \<or> a = CHR '' '') \<and> nonzero_digit b then Some (digit_val b)
      else None)"
| "day_value s = None"

fun month_value :: "string \<Rightarrow> nat option" where
  "month_value [a] = (if nonzero_digit a then Some (digit_val a) else None)"
| "month_value [a, b] =
     (if a = CHR ''1'' \<and> (b = CHR ''0'' \<or> b = CHR ''1'' \<or> b = CHR ''2'') then Some (10 + digit_val b)
      else if a = CHR ''0'' \<and> nonzero_digit b then Some (digit_val b)
      else None)"
| "month_value s = None"

definition year_value :: "string \<Rightarrow> nat option" where
  "year_value s = (if length s = 4 \<and> (\<forall>c \<in> set s. is_digit c) then Some (number_of s) else None)"

definition leap_year :: "nat \<Rightarrow> bool" where
  "leap_year y \<longleftrightarrow> y mod 4 = 0 \<and> (y mod 100 \<noteq> 0 \<or> y mod 400 = 0)"

definition days_in_month :: "nat \<Rightarrow> nat \<Rightarrow> nat" where
  "days_in_month y m =
     (if m = 2 then (if leap_year y then 29 else 28)
      else if m = 4 \<or> m = 6 \<or> m = 9 \<or> m = 11 then 30 else 31)"

definition valid_date :: "nat \<Rightarrow> nat \<Rightarrow> nat \<Rightarrow> bool" where
  "valid_date y m d \<longleftrightarrow> 1 \<le> m \<and> m \<le> 12 \<and> 1 \<le> d \<and> d \<le> days_in_month y m"

text \<open>
  The column is \<open>datetime64[ns]\<close>: midnight of a day is representable from 1677-09-22 to
  2262-04-11.
\<close>

definition in_bounds :: "nat \<Rightarrow> nat \<Rightarrow> nat \<Rightarrow> bool" where
  "in_bounds y m d \<longleftrightarrow>
     (1677 < y \<or> (y = 1677 \<and> (9 < m \<or> (m = 9 \<and> 22 \<le> d)))) \<and>
     (y < 2262 \<or> (y = 2262 \<and> (m < 4 \<or> (m = 4 \<and> d \<le> 11))))"

definition nat_strings :: "string list" where
  "nat_strings = [''NaT'', ''nat'', ''NAT'', ''nan'', ''NaN'', ''NAN'']"

text \<open>
  Line 67: \<open>pd.to_datetime(..., format='%d.%m.%Y')\<close> on one entry of the column. An empty
  string and the not-a-time words give \<open>NaT\<close> (here \<open>None\<close>). Otherwise the whole string
  must match the format: since no directive accepts a dot, the fields are the pieces between
  the dots. A string that does not match, or names no day of the calendar, or a day out of
  bounds, raises a ValueError.
\<close>

definition to_datetime :: "string \<Rightarrow> pyerr + date option" where
  "to_datetime s =
     (if s = [] \<or> s \<in> set nat_strings then Inr None
      else case split_from ''.'' [] s of
        [d, m, y] \<Rightarrow>
          (case (day_value d, month_value m, year_value y) of
             (Some dd, Some mm, Some yy) \<Rightarrow>
               if valid_date yy mm dd \<and> in_bounds yy mm dd
               then Inr (Some \<lparr>dt_year = yy, dt_month = mm, dt_day = dd\<rparr>)
               else Inl ValueError
           | _ \<Rightarrow> Inl ValueError)
      | _ \<Rightarrow> Inl ValueError)"

text \<open>Formatting a date of the column with the same format, \<open>strftime('%d.%m.%Y')\<close>.\<close>

definition pad2 :: "nat \<Rightarrow> string" where
  "pad2 n = [digit_char (n div 10 mod 10), digit_char (n mod 10)]"

definition pad4 :: "nat \<Rightarrow> string" where
  "pad4 n = [digit_char (n div 1000 mod 10), digit_char (n div 100 mod 10),
             digit_char (n div 10 mod 10), digit_char (n mod 10)]"

definition strftime :: "date \<Rightarrow> string" where
  "strftime dt = pad2 (dt_day dt) @ ''.'' @ pad2 (dt_month dt) @ ''.'' @ pad4 (dt_year dt)"



subsection \<open>The table\<close>

text \<open>A row of the DataFrame. The date is \<open>None\<close> for \<open>NaT\<close>.\<close>

record concert =
  c_date :: "date option"
  c_artist :: string
  c_location :: string

fun to_datetime_all :: "string list \<Rightarrow> pyerr + date option list" where
  "to_datetime_all [] = Inr []"
| "to_datetime_all (s # ss) =
     then_do (to_datetime s) (\<lambda>d. then_do (to_datetime_all ss) (\<lambda>ds. Inr (d # ds)))"

text \<open>
  \<open>collect_data\<close>, from what fetching the URL gives: the exception raised, or the page,
  which is \<open>None\<close> when no element has the class of the concerts box and the list of the
  month sections inside the box otherwise. A failed request is caught and reported, and
  line 43 then reads a variable that was never assigned. The DataFrame constructor raises
  a ValueError when the three lists differ in length.
\<close>

definition collect_data :: "pyerr + month_section list option \<Rightarrow> pyerr + concert list" where
  "collect_data fetched =
     (case fetched of
        Inl RequestException \<Rightarrow> Inl UnboundLocalError
      | Inl e \<Rightarrow> Inl e
      | Inr None \<Rightarrow> Inl AttributeError
      | Inr (Some months) \<Rightarrow>
          then_do (month_loop months ([], [], [])) (\<lambda>(dates, artists, locations).
            if length dates = length artists \<and> length artists = length locations then
              then_do (to_datetime_all dates) (\<lambda>parsed.
                Inr (map (\<lambda>(d, a, l). \<lparr>c_date = d, c_artist = a, c_location = l\<rparr>)
                         (zip parsed (zip artists locations))))
            else Inl ValueError))"

text \<open>The concert entries of the whole page, in source order.\<close>

definition page_entries :: "month_section list \<Rightarrow> (element \<times> element \<times> element) list" where
  "page_entries months = concat (map concert_entries months)"

text \<open>A page with two month sections, used as a concrete input below.\<close>

definition sample_page :: "month_section list" where
  "sample_page =
     [[\<lparr>el_class = ''ph-concerts-list-headline'', el_text = ''November 2024''\<rparr>,
       \<lparr>el_class = date_class, el_text = ''Fr 01.11.2024''\<rparr>,
       \<lparr>el_class = artist_class, el_text = ''Powerwolf live''\<rparr>,
       \<lparr>el_class = location_class, el_text = ''Gasometer, Wien''\<rparr>,
       \<lparr>el_class = date_class, el_text = ''Fr 15.11.2024''\<rparr>,
       \<lparr>el_class = artist_class, el_text = ''Nightwish live''\<rparr>,
       \<lparr>el_class = location_class, el_text = ''Stadthalle, Wien''\<rparr>],
      [\<lparr>el_class = date_class, el_text = ''Di 03.12.2024''\<rparr>,
       \<lparr>el_class = artist_class, el_text = ''Powerwolf live''\<rparr>,
       \<lparr>el_class = location_class, el_text = ''Arena Wien''\<rparr>]]"

section \<open>safe\_data.py: the database\<close>

subsection \<open>The schema of create\_tables\<close>

text \<open>
  One record per table row, with the columns of the CREATE TABLE statements. A column that
  may hold NULL is an option. A table is the list of its rows in insertion order. A SERIAL
  key counts the inserts from 1; a failed insert raises and ends the run, so the next key is
  always the number of rows plus one.
\<close>

record location_row =
  location_id :: nat
  location_name :: "string option"

record area_row =
  area_id :: nat
  area_name :: "string option"

record artist_row =
  artist_id :: nat
  artist_area_id :: "nat option"
  artist_name :: string
  mb_id :: "string option"

record album_row =
  album_id :: nat
  album_artist_id :: "nat option"
  album_name :: "string option"

record concert_row =
  concert_id :: nat
  concert_location_id :: "nat option"
  concert_artist_id :: "nat option"
  concert_date :: date

record database =
  locations_table :: "location_row list"
  areas_table :: "area_row list"
  artists_table :: "artist_row list"
  albums_table :: "album_row list"
  concerts_table :: "concert_row list"

text \<open>The database after \<open>create_database\<close> and \<open>create_tables\<close>: five empty tables.\<close>

definition create_tables :: database where
  "create_tables = \<lparr>locations_table = [], areas_table = [], artists_table = [], albums_table = [], concerts_table = []\<rparr>"

text \<open>
  Storing a string in a VARCHAR(255) column: a longer string is an error, unless all the
  characters beyond the limit are spaces, in which case it is cut to the limit.
\<close>

definition varchar255 :: "string \<Rightarrow> pyerr + string" where
  "varchar255 s =
     (if length s \<le> 255 then Inr s
      else if \<forall>c \<in> set (drop 255 s). c = CHR '' '' then Inr (take 255 s)
      else Inl (DatabaseError StringDataRightTruncation))"

text \<open>
  The CHECK on \<open>mb_id\<close>: a case-insensitive match of
  \<open>^[0-9a-f]{8}-[0-9a-f]{4}-[0-9a-f]{4}-[0-9a-f]{4}-[0-9a-f]{12}$\<close>.
\<close>

definition hex_digit :: "char \<Rightarrow> bool" where
  "hex_digit c \<longleftrightarrow> c \<in> set ''0123456789abcdefABCDEF''"

definition uuid_like :: "string \<Rightarrow> bool" where
  "uuid_like s \<longleftrightarrow>
     length s = 36 \<and>
     list_all hex_digit (take 8 s) \<and> s ! 8 = CHR ''-'' \<and>
     list_all hex_digit (take 4 (drop 9 s)) \<and> s ! 13 = CHR ''-'' \<and>
     list_all hex_digit (take 4 (drop 14 s)) \<and> s ! 18 = CHR ''-'' \<and>
     list_all hex_digit (take 4 (drop 19 s)) \<and> s ! 23 = CHR ''-'' \<and>
     list_all hex_digit (drop 24 s)"

subsection \<open>The SELECT statements\<close>

text \<open>
  \<open>SELECT id FROM table WHERE name = %s\<close> followed by \<open>fetchone()\<close>: the key of the first
  row whose name equals the parameter, or \<open>None\<close> when no row does. A comparison with NULL
  selects nothing, so a \<open>None\<close> parameter finds no row. The one-element tuple that
  \<open>fetchone\<close> returns is passed on to the INSERT, where it is written as the value itself.
\<close>

definition lookup_location :: "location_row list \<Rightarrow> string option \<Rightarrow> nat option" where
  "lookup_location rows name =
     (case name of
        None \<Rightarrow> None
      | Some s \<Rightarrow> map_option location_id (find (\<lambda>r. location_name r = Some s) rows))"

definition lookup_area :: "area_row list \<Rightarrow> string option \<Rightarrow> nat option" where
  "lookup_area rows name =
     (case name of
        None \<Rightarrow> None
      | Some s \<Rightarrow> map_option area_id (find (\<lambda>r. area_name r = Some s) rows))"

definition lookup_artist :: "artist_row list \<Rightarrow> string \<Rightarrow> nat option" where
  "lookup_artist rows name = map_option artist_id (find (\<lambda>r. artist_name r = name) rows)"

subsection \<open>The INSERT statements\<close>

definition coerce_name :: "string option \<Rightarrow> pyerr + string option" where
  "coerce_name item =
     (case item of
        None \<Rightarrow> Inr None
      | Some s \<Rightarrow> then_do (varchar255 s) (\<lambda>v. Inr (Some v)))"

text \<open>\<open>location_name\<close> and \<open>area_name\<close> are UNIQUE: a second row with the same non-null name is refused.\<close>

definition insert_location :: "database \<Rightarrow> string option \<Rightarrow> pyerr + database" where
  "insert_location db item =
     then_do (coerce_name item) (\<lambda>name.
       if name \<noteq> None \<and> name \<in> location_name ` set (locations_table db)
       then Inl (DatabaseError UniqueViolation)
       else Inr (db\<lparr>locations_table := locations_table db @
              [\<lparr>location_id = Suc (length (locations_table db)), location_name = name\<rparr>]\<rparr>))"

definition insert_area :: "database \<Rightarrow> string option \<Rightarrow> pyerr + database" where
  "insert_area db item =
     then_do (coerce_name item) (\<lambda>name.
       if name \<noteq> None \<and> name \<in> area_name ` set (areas_table db)
       then Inl (DatabaseError UniqueViolation)
       else Inr (db\<lparr>areas_table := areas_table db @
              [\<lparr>area_id = Suc (length (areas_table db)), area_name = name\<rparr>]\<rparr>))"

text \<open>
  An artist row: the name must fit, the \<open>mb_id\<close> must be NULL or pass the CHECK, and the
  \<open>area_id\<close> must be NULL or the key of a row of \<open>areas\<close>.
\<close>

definition insert_artist ::
  "database \<Rightarrow> nat option \<Rightarrow> string \<Rightarrow> string option \<Rightarrow> pyerr + database" where
  "insert_artist db area artist mb =
     then_do (varchar255 artist) (\<lambda>name.
     then_do (coerce_name mb) (\<lambda>mbid.
       if mbid \<noteq> None \<and> \<not> uuid_like (the mbid) then Inl (DatabaseError CheckViolation)
       else if area \<noteq> None \<and> area \<notin> Some ` area_id ` set (areas_table db)
       then Inl (DatabaseError ForeignKeyViolation)
       else Inr (db\<lparr>artists_table := artists_table db @
              [\<lparr>artist_id = Suc (length (artists_table db)), artist_area_id = area,
                artist_name = name, mb_id = mbid\<rparr>]\<rparr>)))"

definition insert_album :: "nat option \<Rightarrow> database \<Rightarrow> string \<Rightarrow> pyerr + database" where
  "insert_album artist db album =
     then_do (varchar255 album) (\<lambda>name.
       if artist \<noteq> None \<and> artist \<notin> Some ` artist_id ` set (artists_table db)
       then Inl (DatabaseError ForeignKeyViolation)
       else Inr (db\<lparr>albums_table := albums_table db @
              [\<lparr>album_id = Suc (length (albums_table db)), album_artist_id = artist,
                album_name = Some name\<rparr>]\<rparr>))"

text \<open>A concert row: the date column is NOT NULL, and \<open>NaT\<close> is no date.\<close>

definition insert_concert ::
  "database \<Rightarrow> nat option \<Rightarrow> nat option \<Rightarrow> date option \<Rightarrow> pyerr + database" where
  "insert_concert db location artist d =
     (case d of
        None \<Rightarrow> Inl (DatabaseError InvalidDatetime)
      | Some day \<Rightarrow>
          if location \<noteq> None \<and> location \<notin> Some ` location_id ` set (locations_table db)
          then Inl (DatabaseError ForeignKeyViolation)
          else if artist \<noteq> None \<and> artist \<notin> Some ` artist_id ` set (artists_table db)
          then Inl (DatabaseError ForeignKeyViolation)
          else Inr (db\<lparr>concerts_table := concerts_table db @
                 [\<lparr>concert_id = Suc (length (concerts_table db)), concert_location_id = location,
                   concert_artist_id = artist, concert_date = day\<rparr>]\<rparr>))"

subsection \<open>ManageDatabase: the fill operations\<close>

definition fill_locations_table :: "database \<Rightarrow> string option list \<Rightarrow> pyerr + database" where
  "fill_locations_table db lst = for_each insert_location db lst"

definition fill_areas_table :: "database \<Rightarrow> string option list \<Rightarrow> pyerr + database" where
  "fill_areas_table db lst = for_each insert_area db lst"

text \<open>A dict is the list of its items in insertion order, as \<open>dicti.items()\<close> gives them.\<close>

type_synonym artists_data = "(string \<times> string option \<times> string option) list"

type_synonym albums_data = "(string \<times> string list) list"

definition artists_body :: "database \<Rightarrow> string \<times> string option \<times> string option \<Rightarrow> pyerr + database" where
  "artists_body db item =
     (case item of (artist, area, mbid) \<Rightarrow>
        insert_artist db (lookup_area (areas_table db) area) artist mbid)"

definition fill_artists_table :: "database \<Rightarrow> artists_data \<Rightarrow> pyerr + database" where
  "fill_artists_table db dicti = for_each artists_body db dicti"

definition albums_body :: "database \<Rightarrow> string \<times> string list \<Rightarrow> pyerr + database" where
  "albums_body db item =
     (case item of (artist, album_names) \<Rightarrow>
        for_each (insert_album (lookup_artist (artists_table db) artist)) db album_names)"

definition fill_albums_table :: "database \<Rightarrow> albums_data \<Rightarrow> pyerr + database" where
  "fill_albums_table db dicti = for_each albums_body db dicti"

definition concerts_body :: "database \<Rightarrow> concert \<Rightarrow> pyerr + database" where
  "concerts_body db row =
     insert_concert db
       (lookup_location (locations_table db) (Some (c_location row)))
       (lookup_artist (artists_table db) (c_artist row))
       (c_date row)"

definition fill_concerts_table :: "database \<Rightarrow> concert list \<Rightarrow> pyerr + database" where
  "fill_concerts_table db df = for_each concerts_body db df"

section \<open>main.py: collecting and storing (lines 69 to 112)\<close>

subsection \<open>pandas and dict helpers\<close>

text \<open>\<open>Series.unique()\<close>: the values in order of first appearance.\<close>

fun unique_from :: "'a list \<Rightarrow> 'a list \<Rightarrow> 'a list" where
  "unique_from seen [] = []"
| "unique_from seen (x # xs) =
     (if x \<in> set seen then unique_from seen xs else x # unique_from (x # seen) xs)"

definition pd_unique :: "'a list \<Rightarrow> 'a list" where
  "pd_unique xs = unique_from [] xs"

text \<open>\<open>Series.dropna()\<close> on a column of strings and \<open>None\<close>.\<close>

definition dropna :: "'a option list \<Rightarrow> 'a option list" where
  "dropna xs = filter (\<lambda>x. x \<noteq> None) xs"

text \<open>\<open>dicti[key] = value\<close>: an existing key keeps its place, a new one goes to the end.\<close>

fun dict_set :: "('k \<times> 'v) list \<Rightarrow> 'k \<Rightarrow> 'v \<Rightarrow> ('k \<times> 'v) list" where
  "dict_set [] key v = [(key, v)]"
| "dict_set ((k, old) # items) key v =
     (if k = key then (k, v) # items else (k, old) # dict_set items key v)"

subsection \<open>The metadata client as the pipeline uses it\<close>

text \<open>
  The pipeline stores what the three methods of \<open>ArtistInfos\<close> return in VARCHAR columns.
  Here the client is any three functions that raise or return strings (or \<open>None\<close>), which
  is what the methods return on payloads of the documented shape.
\<close>

record infos =
  artist_id_of :: "string \<Rightarrow> pyerr + string option"
  artist_area_of :: "string option \<Rightarrow> pyerr + string option"
  album_names_of :: "string \<Rightarrow> pyerr + string list"

text \<open>Lines 71 to 77 and 81 to 85: the two loops over the artist names.\<close>

definition ids_areas_body :: "infos \<Rightarrow> artists_data \<Rightarrow> string \<Rightarrow> pyerr + artists_data" where
  "ids_areas_body client dicti artist =
     then_do (artist_id_of client artist) (\<lambda>mbid.
     then_do (artist_area_of client mbid) (\<lambda>area.
       Inr (dict_set dicti artist (area, mbid))))"

definition albums_dict_body :: "infos \<Rightarrow> albums_data \<Rightarrow> string \<Rightarrow> pyerr + albums_data" where
  "albums_dict_body client dicti artist =
     then_do (album_names_of client artist) (\<lambda>names. Inr (dict_set dicti artist names))"

text \<open>Line 102: \<open>artists_data_df['Area'].dropna().unique().tolist()\<close>.\<close>

definition areas_lst :: "artists_data \<Rightarrow> string option list" where
  "areas_lst dicti = pd_unique (dropna (map (\<lambda>item. fst (snd item)) dicti))"

definition fill_pipeline :: "infos \<Rightarrow> concert list \<Rightarrow> pyerr + database" where
  "fill_pipeline client concerts_data_df =
     (let artists_names = pd_unique (map c_artist concerts_data_df) in
      then_do (for_each (ids_areas_body client) [] artists_names) (\<lambda>artists_data_dicti.
      then_do (for_each (albums_dict_body client) [] artists_names) (\<lambda>albums_data_dicti.
      then_do (fill_locations_table create_tables
                 (map Some (pd_unique (map c_location concerts_data_df)))) (\<lambda>db1.
      then_do (fill_areas_table db1 (areas_lst artists_data_dicti)) (\<lambda>db2.
      then_do (fill_artists_table db2 artists_data_dicti) (\<lambda>db3.
      then_do (fill_albums_table db3 albums_data_dicti) (\<lambda>db4.
        fill_concerts_table db4 concerts_data_df)))))))"

subsection \<open>The rows a fill operation adds\<close>

text \<open>
  The rows added to a table that has \<open>k\<close> rows already. A stored name is the name cut to
  255 characters, which is the name itself when it fits.
\<close>

fun location_rows :: "nat \<Rightarrow> string option list \<Rightarrow> location_row list" where
  "location_rows k [] = []"
| "location_rows k (x # xs) =
     \<lparr>location_id = Suc k, location_name = map_option (take 255) x\<rparr> # location_rows (Suc k) xs"

fun area_rows :: "nat \<Rightarrow> string option list \<Rightarrow> area_row list" where
  "area_rows k [] = []"
| "area_rows k (x # xs) =
     \<lparr>area_id = Suc k, area_name = map_option (take 255) x\<rparr> # area_rows (Suc k) xs"

fun artist_rows :: "area_row list \<Rightarrow> nat \<Rightarrow> artists_data \<Rightarrow> artist_row list" where
  "artist_rows as k [] = []"
| "artist_rows as k ((artist, area, mbid) # rest) =
     \<lparr>artist_id = Suc k, artist_area_id = lookup_area as area,
      artist_name = take 255 artist, mb_id = mbid\<rparr> # artist_rows as (Suc k) rest"

fun album_rows_for :: "nat option \<Rightarrow> nat \<Rightarrow> string list \<Rightarrow> album_row list" where
  "album_rows_for artist k [] = []"
| "album_rows_for artist k (album # rest) =
     \<lparr>album_id = Suc k, album_artist_id = artist, album_name = Some (take 255 album)\<rparr>
       # album_rows_for artist (Suc k) rest"

fun album_rows :: "artist_row list \<Rightarrow> nat \<Rightarrow> albums_data \<Rightarrow> album_row list" where
  "album_rows ars k [] = []"
| "album_rows ars k ((artist, names) # rest) =
     album_rows_for (lookup_artist ars artist) k names @ album_rows ars (k + length names) rest"

fun concert_rows :: "location_row list \<Rightarrow> artist_row list \<Rightarrow> nat \<Rightarrow> concert list \<Rightarrow> concert_row list" where
  "concert_rows ls ars k [] = []"
| "concert_rows ls ars k (c # rest) =
     (case c_date c of
        None \<Rightarrow> concert_rows ls ars k rest
      | Some day \<Rightarrow>
          \<lparr>concert_id = Suc k,
           concert_location_id = lookup_location ls (Some (c_location c)),
           concert_artist_id = lookup_artist ars (c_artist c),
           concert_date = day\<rparr> # concert_rows ls ars (Suc k) rest)"

subsection \<open>Concrete inputs\<close>

text \<open>A database with one location and one area, and rows that refer to other names.\<close>

definition sample_db :: database where
  "sample_db =
     \<lparr>locations_table = [\<lparr>location_id = 1, location_name = Some ''Arena Wien''\<rparr>],
      areas_table = [\<lparr>area_id = 1, area_name = Some ''Austria''\<rparr>],
      artists_table = [], albums_table = [], concerts_table = []\<rparr>"

definition stray_concerts :: "concert list" where
  "stray_concerts =
     [\<lparr>c_date = Some \<lparr>dt_year = 2024, dt_month = 11, dt_day = 1\<rparr>,
       c_artist = ''Powerwolf'', c_location = ''Gasometer''\<rparr>]"

definition stray_artists :: artists_data where
  "stray_artists = [(''Powerwolf'', Some ''Germany'', None)]"

section \<open>Facts about split\<close>

lemma split_from_nonempty: "split_from sep cur s \<noteq> []"
  by (induction sep cur s rule: split_from.induct) auto

lemma hd_split_from_cur: "hd (split_from sep cur s) = cur @ hd (split_from sep [] s)"
proof (induction s arbitrary: cur)
  case Nil
  show ?case by simp
next
  case (Cons c cs)
  show ?case
  proof (cases "sep \<noteq> [] \<and> prefix sep (c # cs)")
    case True
    then show ?thesis by simp
  next
    case False
    have "hd (split_from sep cur (c # cs)) = hd (split_from sep (cur @ [c]) cs)"
      using False by auto
    also have "\<dots> = (cur @ [c]) @ hd (split_from sep [] cs)"
      by (rule Cons.IH)
    also have "\<dots> = cur @ hd (split_from sep [c] cs)"
      using Cons.IH [of "[c]"] by simp
    also have "\<dots> = cur @ hd (split_from sep [] (c # cs))"
      using False by auto
    finally show ?thesis .
  qed
qed

lemma split_from_no_occurrence:
  "\<not> occurs sep s \<Longrightarrow> split_from sep cur s = [cur @ s]"
  by (induction s arbitrary: cur) auto

lemma prefix_hd_split_from: "prefix (hd (split_from sep [] s)) s"
proof (induction s)
  case Nil
  show ?case by simp
next
  case (Cons c cs)
  show ?case
  proof (cases "sep \<noteq> [] \<and> prefix sep (c # cs)")
    case True
    then show ?thesis by simp
  next
    case False
    then have "hd (split_from sep [] (c # cs)) = c # hd (split_from sep [] cs)"
      using hd_split_from_cur [of sep "[c]" cs] by auto
    then show ?thesis using Cons.IH by simp
  qed
qed

lemma hd_split_from_free:
  "sep \<noteq> [] \<Longrightarrow> \<not> occurs sep (hd (split_from sep [] s))"
proof (induction s)
  case Nil
  then show ?case by simp
next
  case (Cons c cs)
  show ?case
  proof (cases "prefix sep (c # cs)")
    case True
    then show ?thesis using Cons.prems by simp
  next
    case False
    have eq: "hd (split_from sep [] (c # cs)) = c # hd (split_from sep [] cs)"
      using False hd_split_from_cur [of sep "[c]" cs] by auto
    have "prefix (c # hd (split_from sep [] cs)) (c # cs)"
      using prefix_hd_split_from [of sep cs] by simp
    then have "\<not> prefix sep (c # hd (split_from sep [] cs))"
      using False prefix_order.trans by blast
    then show ?thesis using eq Cons by simp
  qed
qed

lemma hd_split_from_first:
  "sep \<noteq> [] \<Longrightarrow> \<not> occurs sep (p @ butlast sep) \<Longrightarrow>
   hd (split_from sep cur (p @ sep @ r)) = cur @ p"
proof (induction p arbitrary: cur)
  case Nil
  then obtain c cs where "sep = c # cs" by (cases sep) auto
  then show ?case by simp
next
  case (Cons x p)
  have no: "\<not> prefix sep (x # p @ butlast sep)" and rest: "\<not> occurs sep (p @ butlast sep)"
    using Cons.prems(2) by auto
  have "length sep \<le> length (x # p @ butlast sep)" by simp
  moreover have "prefix (x # p @ butlast sep) (x # p @ sep @ r)"
    by (metis Cons_prefix_Cons append_butlast_last_id Cons.prems(1) append.assoc
        prefixI same_prefix_prefix)
  ultimately have "\<not> prefix sep (x # p @ sep @ r)"
    using no prefix_length_prefix by blast
  then have "hd (split_from sep cur ((x # p) @ sep @ r)) =
             hd (split_from sep (cur @ [x]) (p @ sep @ r))"
    by simp
  also have "\<dots> = (cur @ [x]) @ p"
    using Cons.IH [OF Cons.prems(1) rest] .
  finally show ?case by simp
qed

lemma artist_field_eq: "artist_field label = Inr (hd (split_from '' live'' [] label))"
  using split_from_nonempty [of "'' live''" "[]" label]
  by (cases "split_from '' live'' [] label")
     (simp_all add: artist_field_def py_split_def py_index_def)

section \<open>Claims about the artist clean-up\<close>

text \<open>
  C5, as the specification states it, fails: the label \<open>Saxon live in Wien\<close> has no
  trailing \<open>" live"\<close>, so the specification's clean-up leaves it unchanged, while the
  scraper stores \<open>Saxon\<close>.
\<close>

theorem artist_field_not_trailing_counterexample:
  "artist_field ''Saxon live in Wien'' = Inr ''Saxon'' \<and>
   artist_field ''Saxon live in Wien'' \<noteq> Inr (strip_trailing_live ''Saxon live in Wien'')"
  by (simp add: artist_field_def py_split_def py_index_def strip_trailing_live_def suffix_def)

text \<open>
  C5, amended: the stored artist name is the part of the label before the first (leftmost)
  occurrence of \<open>" live"\<close>, and the whole label when \<open>" live"\<close> does not occur in it. So a
  trailing \<open>" live"\<close> is removed when it is the only occurrence.
\<close>

theorem artist_field_first_live:
  "(\<not> occurs '' live'' label \<longrightarrow> artist_field label = Inr label) \<and>
   (label = p @ '' live'' @ r \<and> \<not> occurs '' live'' (p @ '' liv'') \<longrightarrow>
      artist_field label = Inr p)"
proof (intro conjI impI)
  assume "\<not> occurs '' live'' label"
  then show "artist_field label = Inr label"
    by (simp add: artist_field_eq split_from_no_occurrence)
next
  assume a: "label = p @ '' live'' @ r \<and> \<not> occurs '' live'' (p @ '' liv'')"
  have "hd (split_from '' live'' [] (p @ '' live'' @ r)) = [] @ p"
    by (rule hd_split_from_first) (use a in simp_all)
  then show "artist_field label = Inr p"
    using a by (simp add: artist_field_eq)
qed

theorem artist_field_first_live_witness:
  "artist_field ''Powerwolf'' = Inr ''Powerwolf'' \<and>
   artist_field ''Powerwolf live'' = Inr ''Powerwolf'' \<and>
   artist_field ''Saxon live in Wien live'' = Inr ''Saxon''"
proof -
  have 1: "artist_field ''Powerwolf'' = Inr ''Powerwolf''"
    using artist_field_first_live [of "''Powerwolf''" "[]" "[]"] by simp
  have 2: "artist_field ''Powerwolf live'' = Inr ''Powerwolf''"
    using artist_field_first_live [of "''Powerwolf live''" "''Powerwolf''" "[]"] by simp
  have 3: "artist_field ''Saxon live in Wien live'' = Inr ''Saxon''"
    using artist_field_first_live [of "''Saxon live in Wien live''" "''Saxon''" "'' in Wien live''"]
    by simp
  from 1 2 3 show ?thesis by simp
qed

text \<open>
  C9: the clean-up is idempotent. It always returns a name, and cleaning that name again
  returns it unchanged.
\<close>

theorem artist_field_idempotent:
  "\<exists>name. artist_field label = Inr name \<and> artist_field name = Inr name"
proof -
  let ?name = "hd (split_from '' live'' [] label)"
  have "\<not> occurs '' live'' ?name"
    by (rule hd_split_from_free) simp
  then have "artist_field ?name = Inr ?name"
    by (simp add: artist_field_eq split_from_no_occurrence)
  then show ?thesis
    using artist_field_eq by blast
qed

section \<open>Facts about the metadata client\<close>

lemma map_of_Some_key: "map_of items key = Some v \<Longrightarrow> key \<in> fst ` set items"
  by (induction items) (auto split: if_splits)

lemma py_getitem_Some: "map_of items key = Some v \<Longrightarrow> py_getitem (JObj items) key = Inr v"
  by simp

lemma api_request_caught:
  "w url = Inl RequestException \<or> w url = Inl JSONDecodeError \<Longrightarrow> api_request w url = Inr JNull"
  by (auto simp: api_request_def)

lemma get_artist_id_missing_key:
  "w (ArtistQuery name) = Inr (JObj items) \<Longrightarrow> ''artists'' \<notin> fst ` set items \<Longrightarrow>
   get_artist_id w name = Inr JNull"
  by (simp add: get_artist_id_def api_request_def then_do_def)

lemma get_artist_id_no_results:
  "w (ArtistQuery name) = Inr (JObj items) \<Longrightarrow> map_of items ''artists'' = Some (JArr []) \<Longrightarrow>
   get_artist_id w name = Inr JNull"
  by (simp add: get_artist_id_def api_request_def then_do_def map_of_Some_key)

lemma album_loop_step:
  assumes "release_group_view rg = Some (credited, title)"
  shows "album_loop name (rg # rest) albums =
         album_loop name rest (if credited = name then albums @ [title] else albums)"
proof -
  obtain items where rg: "rg = JObj items"
    using assms by (cases rg) auto
  obtain credit more where
    c: "map_of items ''artist-credit'' = Some (JArr (JObj credit # more))" and
    t: "map_of items ''title'' = Some title" and
    n: "map_of credit ''name'' = Some (JStr credited)"
    using assms unfolding rg
    by (auto split: option.splits json.splits list.splits)
  show ?thesis
    unfolding rg by (simp add: then_do_def c t n)
qed

lemma album_loop_filter:
  "\<forall>rg \<in> set rgs. release_group_view rg \<noteq> None \<Longrightarrow>
   album_loop name rgs albums =
   Inr (albums @ map snd (filter (\<lambda>v. fst v = name) (map (\<lambda>rg. the (release_group_view rg)) rgs)))"
proof (induction rgs arbitrary: albums)
  case Nil
  show ?case by simp
next
  case (Cons rg rgs)
  obtain credited title where v: "release_group_view rg = Some (credited, title)"
    using Cons.prems by fastforce
  have rest: "\<forall>rg \<in> set rgs. release_group_view rg \<noteq> None"
    using Cons.prems by simp
  show ?case
    unfolding album_loop_step [OF v] Cons.IH [OF rest]
    by (simp add: v)
qed

lemma print_songs_lines:
  "\<forall>song \<in> set songs. song_name song \<noteq> None \<Longrightarrow>
   print_songs idx songs =
   Inr (map (\<lambda>p. TrackLine (fst p + 1) (the (song_name (snd p)))) (zip [idx ..< idx + length songs] songs))"
proof (induction songs arbitrary: idx)
  case Nil
  show ?case by simp
next
  case (Cons song songs)
  obtain items name where s: "song = JObj items" "map_of items ''name'' = Some name"
    using Cons.prems by (cases song) auto
  have rest: "\<forall>song \<in> set songs. song_name song \<noteq> None"
    using Cons.prems by simp
  have up: "[idx ..< idx + length (song # songs)] = idx # [idx + 1 ..< idx + 1 + length songs]"
    by (simp add: upt_rec)
  show ?case
    unfolding up using Cons.IH [OF rest, of "idx + 1"]
    by (simp add: then_do_def s)
qed

lemma top_tracks_found:
  assumes "spotify_init w = Inr header"
    and "search_artist w input_artist = Inr spotify_id"
    and "w (SpotifyTopTracks spotify_id) = Inr (JObj items)"
    and "map_of items ''tracks'' = Some (JArr songs)"
    and "\<forall>song \<in> set songs. song_name song \<noteq> None"
  shows "top_tracks_step w input_artist =
         Inr (TopTracksHeader input_artist #
              map (\<lambda>p. TrackLine (fst p + 1) (the (song_name (snd p))))
                  (zip [0 ..< length songs] songs))"
  using assms(1,2,3,4) print_songs_lines [OF assms(5), of 0]
  by (simp add: top_tracks_step_def get_songs_def then_do_def)

lemma top_tracks_found_example:
  "top_tracks_step found_web ''Powerwolf'' =
   Inr [TopTracksHeader ''Powerwolf'',
        TrackLine 1 (JStr ''Army of the Night''),
        TrackLine 2 (JStr ''Demons Are a Girl's Best Friend'')]"
  by (simp add: top_tracks_step_def spotify_init_def search_artist_def get_songs_def
        found_web_def then_do_def)

lemma search_artist_no_match:
  "w (SpotifySearch typed_name) = Inr (JObj [(''artists'', JObj [(''items'', JArr [])])]) \<Longrightarrow>
   search_artist w typed_name = Inr JNull"
  by (simp add: search_artist_def then_do_def)

section \<open>Claims about the metadata client\<close>

text \<open>
  C2: when the HTTP request of the artist search raises a connection error, \<open>api_request\<close>
  catches it and returns \<open>None\<close>; \<open>get_artist_id\<close> then evaluates \<open>'artists' in None\<close>,
  and the TypeError propagates instead of the documented \<open>None\<close> result.
\<close>

theorem get_artist_id_offline_raises:
  "api_request offline_web (ArtistQuery ''Powerwolf'') = Inr JNull \<and>
   get_artist_id offline_web ''Powerwolf'' = Inl TypeError"
  by (simp add: get_artist_id_def api_request_def offline_web_def then_do_def)

text \<open>
  C6: for a release-group search payload of the documented shape, \<open>get_album_names\<close>
  returns exactly the titles of the release groups whose first credited artist name
  equals the queried name, in payload order.
\<close>

theorem get_album_names_exact_credit:
  assumes "w (ReleaseGroupQuery name) = Inr (JObj items)"
    and "map_of items ''release-groups'' = Some (JArr rgs)"
    and "\<forall>rg \<in> set rgs. release_group_view rg \<noteq> None"
  shows "get_album_names w name =
         Inr (map snd (filter (\<lambda>v. fst v = name)
                (map (\<lambda>rg. the (release_group_view rg)) rgs)))"
  using assms(1,2) album_loop_filter [OF assms(3), of name "[]"]
  by (simp add: get_album_names_def api_request_def then_do_def map_of_Some_key)

theorem get_album_names_exact_credit_witness:
  "get_album_names two_artists_web ''Artist A'' = Inr [JStr ''First'', JStr ''Third'']"
proof -
  have 1: "two_artists_web (ReleaseGroupQuery ''Artist A'') =
           Inr (JObj [(''count'', JNum 3), (''release-groups'', JArr two_artists_groups)])"
    by (simp add: two_artists_web_def)
  have 2: "map_of [(''count'', JNum 3), (''release-groups'', JArr two_artists_groups)]
             ''release-groups'' = Some (JArr two_artists_groups)"
    by simp
  have 3: "\<forall>rg \<in> set two_artists_groups. release_group_view rg \<noteq> None"
    by code_simp
  have 4: "map snd (filter (\<lambda>v. fst v = ''Artist A'')
             (map (\<lambda>rg. the (release_group_view rg)) two_artists_groups)) =
           [JStr ''First'', JStr ''Third'']"
    by (simp add: two_artists_groups_def)
  show ?thesis
    using get_album_names_exact_credit [of two_artists_web "''Artist A''", OF 1 2 3] 4 by simp
qed

text \<open>
  C4: when the catalog search finds no artist, \<open>search_artist\<close> returns \<open>None\<close> as
  documented, but the step passes it to \<open>get_songs\<close> unchecked: the top tracks of the id
  \<open>None\<close> are requested, the answer carries no \<open>tracks\<close>, and the KeyError propagates.
  Nothing is printed to say that no artist was found.
\<close>

theorem top_tracks_no_match_raises:
  "search_artist no_match_web ''Nobody'' = Inr JNull \<and>
   get_songs no_match_web JNull = Inl KeyError \<and>
   top_tracks_step no_match_web ''Nobody'' = Inl KeyError"
  by (simp add: top_tracks_step_def spotify_init_def search_artist_def get_songs_def
        no_match_web_def then_do_def)

section \<open>Facts about the scraper\<close>

lemma location_field_eq: "location_field label = Inr (hd (split_from '','' [] label))"
  using split_from_nonempty [of "'',''" "[]" label]
  by (cases "split_from '','' [] label")
     (simp_all add: location_field_def py_split_def py_index_def then_do_def)

lemma date_field_error: "date_field label = Inl e \<Longrightarrow> e = IndexError"
  by (auto simp: date_field_def py_split_def py_index_def then_do_def split: if_splits)

lemma append_each_Inr:
  "append_each f es acc = Inr r \<Longrightarrow>
   \<exists>vs. r = acc @ vs \<and> map Inr vs = map (\<lambda>e. f (el_text e)) es"
proof (induction es arbitrary: acc)
  case Nil
  then show ?case by simp
next
  case (Cons e es)
  then obtain v where v: "f (el_text e) = Inr v" and r: "append_each f es (acc @ [v]) = Inr r"
    by (auto simp: then_do_def split: sum.splits)
  from Cons.IH [OF r] obtain vs where "r = (acc @ [v]) @ vs" "map Inr vs = map (\<lambda>e. f (el_text e)) es"
    by blast
  then have "r = acc @ (v # vs) \<and> map Inr (v # vs) = map (\<lambda>e. f (el_text e)) (e # es)"
    using v by simp
  then show ?case by blast
qed

lemma append_each_Inl:
  "append_each f es acc = Inl err \<Longrightarrow> \<exists>e \<in> set es. f (el_text e) = Inl err"
  by (induction es arbitrary: acc) (auto simp: then_do_def split: sum.splits)

lemma month_loop_Inr:
  "month_loop months (ds, as, ls) = Inr (ds', as', ls') \<Longrightarrow>
   \<exists>d a l. ds' = ds @ d \<and> as' = as @ a \<and> ls' = ls @ l \<and>
     map Inr d = map (\<lambda>e. date_field (el_text e)) (concat (map (find_all date_class) months)) \<and>
     map Inr a = map (\<lambda>e. artist_field (el_text e)) (concat (map (find_all artist_class) months)) \<and>
     map Inr l = map (\<lambda>e. location_field (el_text e)) (concat (map (find_all location_class) months))"
proof (induction months arbitrary: ds as ls)
  case Nil
  then show ?case by simp
next
  case (Cons m months)
  from Cons.prems obtain ds1 as1 ls1 where
    d1: "append_each date_field (find_all date_class m) ds = Inr ds1" and
    a1: "append_each artist_field (find_all artist_class m) as = Inr as1" and
    l1: "append_each location_field (find_all location_class m) ls = Inr ls1" and
    rest: "month_loop months (ds1, as1, ls1) = Inr (ds', as', ls')"
    by (auto simp: then_do_def split: sum.splits)
  from append_each_Inr [OF d1] obtain dv where dv: "ds1 = ds @ dv"
    "map Inr dv = map (\<lambda>e. date_field (el_text e)) (find_all date_class m)" by blast
  from append_each_Inr [OF a1] obtain av where av: "as1 = as @ av"
    "map Inr av = map (\<lambda>e. artist_field (el_text e)) (find_all artist_class m)" by blast
  from append_each_Inr [OF l1] obtain lv where lv: "ls1 = ls @ lv"
    "map Inr lv = map (\<lambda>e. location_field (el_text e)) (find_all location_class m)" by blast
  from Cons.IH [OF rest] obtain d a l where r:
    "ds' = ds1 @ d" "as' = as1 @ a" "ls' = ls1 @ l"
    "map Inr d = map (\<lambda>e. date_field (el_text e)) (concat (map (find_all date_class) months))"
    "map Inr a = map (\<lambda>e. artist_field (el_text e)) (concat (map (find_all artist_class) months))"
    "map Inr l = map (\<lambda>e. location_field (el_text e)) (concat (map (find_all location_class) months))"
    by blast
  have "ds' = ds @ (dv @ d) \<and> as' = as @ (av @ a) \<and> ls' = ls @ (lv @ l) \<and>
     map Inr (dv @ d) = map (\<lambda>e. date_field (el_text e)) (concat (map (find_all date_class) (m # months))) \<and>
     map Inr (av @ a) = map (\<lambda>e. artist_field (el_text e)) (concat (map (find_all artist_class) (m # months))) \<and>
     map Inr (lv @ l) = map (\<lambda>e. location_field (el_text e)) (concat (map (find_all location_class) (m # months)))"
    using dv av lv r by simp
  then show ?case by blast
qed

lemma month_loop_Inl:
  "month_loop months (ds, as, ls) = Inl err \<Longrightarrow>
   err = IndexError \<and>
   (\<exists>m \<in> set months. \<exists>e \<in> set (find_all date_class m). date_field (el_text e) = Inl IndexError)"
proof (induction months arbitrary: ds as ls)
  case Nil
  then show ?case by simp
next
  case (Cons m months)
  show ?case
  proof (cases "append_each date_field (find_all date_class m) ds")
    case (Inl e)
    then have "err = e" using Cons.prems by (simp add: then_do_def)
    moreover obtain el where "el \<in> set (find_all date_class m)" "date_field (el_text el) = Inl e"
      using append_each_Inl [OF Inl] by blast
    ultimately show ?thesis using date_field_error by fastforce
  next
    case d: (Inr ds1)
    obtain as1 where a: "append_each artist_field (find_all artist_class m) as = Inr as1"
      using append_each_Inl [of artist_field "find_all artist_class m" as]
      by (cases "append_each artist_field (find_all artist_class m) as") (auto simp: artist_field_eq)
    obtain ls1 where l: "append_each location_field (find_all location_class m) ls = Inr ls1"
      using append_each_Inl [of location_field "find_all location_class m" ls]
      by (cases "append_each location_field (find_all location_class m) ls") (auto simp: location_field_eq)
    have "month_loop months (ds1, as1, ls1) = Inl err"
      using Cons.prems d a l by (simp add: then_do_def)
    from Cons.IH [OF this] show ?thesis by auto
  qed
qed

lemma page_entries_columns:
  "\<forall>m \<in> set months. well_formed m \<Longrightarrow>
   map fst (page_entries months) = concat (map (find_all date_class) months) \<and>
   map (\<lambda>e. fst (snd e)) (page_entries months) = concat (map (find_all artist_class) months) \<and>
   map (\<lambda>e. snd (snd e)) (page_entries months) = concat (map (find_all location_class) months)"
proof (induction months)
  case Nil
  show ?case by (simp add: page_entries_def)
next
  case (Cons m months)
  have wf: "length (find_all date_class m) = length (find_all artist_class m)"
    "length (find_all artist_class m) = length (find_all location_class m)"
    using Cons.prems by (simp_all add: well_formed_def)
  have 1: "map fst (concert_entries m) = find_all date_class m"
    unfolding concert_entries_def using wf by (simp add: map_fst_zip)
  have z: "map snd (concert_entries m) = zip (find_all artist_class m) (find_all location_class m)"
    unfolding concert_entries_def using wf by (simp add: map_snd_zip)
  have 2: "map (\<lambda>e. fst (snd e)) (concert_entries m) = find_all artist_class m"
    using arg_cong [OF z, of "map fst"] wf by (simp add: map_fst_zip comp_def)
  have 3: "map (\<lambda>e. snd (snd e)) (concert_entries m) = find_all location_class m"
    using arg_cong [OF z, of "map snd"] wf by (simp add: map_snd_zip comp_def)
  show ?case
    using Cons 1 2 3 by (simp add: page_entries_def)
qed

section \<open>Claims about the scraper's lists\<close>

text \<open>
  C7: when every month section has equally many date, artist and location elements, the
  loop either stops with an IndexError at a date label that has no second space-separated
  piece, or builds three lists of equal length, as long as the list of the page's concert
  entries, whose i-th date, artist and location are the fields of the i-th entry.
\<close>

theorem collect_lists_rowwise:
  assumes "\<forall>m \<in> set months. well_formed m"
  shows "case month_loop months ([], [], []) of
           Inl e \<Rightarrow> e = IndexError \<and>
             (\<exists>m \<in> set months. \<exists>el \<in> set (find_all date_class m).
                date_field (el_text el) = Inl IndexError)
         | Inr (dates, artists, locations) \<Rightarrow>
             length dates = length artists \<and> length artists = length locations \<and>
             length dates = length (page_entries months) \<and>
             (\<forall>i < length (page_entries months).
                case page_entries months ! i of (d, a, l) \<Rightarrow>
                  date_field (el_text d) = Inr (dates ! i) \<and>
                  artist_field (el_text a) = Inr (artists ! i) \<and>
                  location_field (el_text l) = Inr (locations ! i))"
proof (cases "month_loop months ([], [], [])")
  case (Inl e)
  then show ?thesis using month_loop_Inl [of months "[]" "[]" "[]" e] by simp
next
  case (Inr r)
  obtain dates artists locations where r: "r = (dates, artists, locations)"
    by (cases r) auto
  from month_loop_Inr [OF Inr [unfolded r]] have
    d: "map Inr dates = map (\<lambda>e. date_field (el_text e)) (concat (map (find_all date_class) months))" and
    a: "map Inr artists = map (\<lambda>e. artist_field (el_text e)) (concat (map (find_all artist_class) months))" and
    l: "map Inr locations = map (\<lambda>e. location_field (el_text e)) (concat (map (find_all location_class) months))"
    by auto
  note cols = page_entries_columns [OF assms]
  have d': "map Inr dates = map (\<lambda>e. date_field (el_text (fst e))) (page_entries months)"
    using d cols by (metis (no_types, lifting) map_map comp_def map_eq_conv)
  have a': "map Inr artists = map (\<lambda>e. artist_field (el_text (fst (snd e)))) (page_entries months)"
    using a cols by (metis (no_types, lifting) map_map comp_def map_eq_conv)
  have l': "map Inr locations = map (\<lambda>e. location_field (el_text (snd (snd e)))) (page_entries months)"
    using l cols by (metis (no_types, lifting) map_map comp_def map_eq_conv)
  have ld: "length dates = length (page_entries months)"
    using arg_cong [OF d', of length] by simp
  have la: "length artists = length (page_entries months)"
    using arg_cong [OF a', of length] by simp
  have ll: "length locations = length (page_entries months)"
    using arg_cong [OF l', of length] by simp
  have "\<forall>i < length (page_entries months).
          case page_entries months ! i of (d, a, l) \<Rightarrow>
            date_field (el_text d) = Inr (dates ! i) \<and>
            artist_field (el_text a) = Inr (artists ! i) \<and>
            location_field (el_text l) = Inr (locations ! i)"
  proof (intro allI impI)
    fix i assume i: "i < length (page_entries months)"
    have "map Inr dates ! i = date_field (el_text (fst (page_entries months ! i)))"
      unfolding d' using i by simp
    moreover have "map Inr artists ! i = artist_field (el_text (fst (snd (page_entries months ! i))))"
      unfolding a' using i by simp
    moreover have "map Inr locations ! i = location_field (el_text (snd (snd (page_entries months ! i))))"
      unfolding l' using i by simp
    ultimately show "case page_entries months ! i of (d, a, l) \<Rightarrow>
            date_field (el_text d) = Inr (dates ! i) \<and>
            artist_field (el_text a) = Inr (artists ! i) \<and>
            location_field (el_text l) = Inr (locations ! i)"
      using i ld la ll by (simp add: case_prod_beta)
  qed
  then show ?thesis using Inr r ld la ll by simp
qed

theorem collect_lists_rowwise_witness:
  "month_loop sample_page ([], [], []) =
     Inr ([''01.11.2024'', ''15.11.2024'', ''03.12.2024''],
          [''Powerwolf'', ''Nightwish'', ''Powerwolf''],
          [''Gasometer'', ''Stadthalle'', ''Arena Wien'']) \<and>
   length (page_entries sample_page) = 3"
proof -
  have wf: "\<forall>m \<in> set sample_page. well_formed m"
    by code_simp
  have run: "month_loop sample_page ([], [], []) =
     Inr ([''01.11.2024'', ''15.11.2024'', ''03.12.2024''],
          [''Powerwolf'', ''Nightwish'', ''Powerwolf''],
          [''Gasometer'', ''Stadthalle'', ''Arena Wien''])"
    by code_simp
  show ?thesis
    using run collect_lists_rowwise [OF wf] by simp
qed

section \<open>Facts about dates\<close>








lemma day_value_two_digits:
  assumes "is_digit a" "is_digit b" "day_value [a, b] = Some dd"
  shows "dd = 10 * digit_val a + digit_val b"
proof -
  have sp: "a \<noteq> CHR '' ''" using assms(1) by (auto simp: is_digit_def)
  show ?thesis
    using assms(3) sp by (auto simp: digit_val_def split: if_splits)
qed

lemma month_value_two_digits:
  assumes "is_digit a" "is_digit b" "month_value [a, b] = Some mm"
  shows "mm = 10 * digit_val a + digit_val b"
  using assms(3) by (auto simp: digit_val_def split: if_splits)















lemma to_datetime_examples:
  "to_datetime ''01.01.1500'' = Inl ValueError"
  "to_datetime ''31.02.2024'' = Inl ValueError"
  "to_datetime ''1.5.2024'' = Inr (Some \<lparr>dt_year = 2024, dt_month = 5, dt_day = 1\<rparr>)"
  "to_datetime '''' = Inr None"
  "strftime \<lparr>dt_year = 2024, dt_month = 5, dt_day = 1\<rparr> = ''01.05.2024''"
  by code_simp+

section \<open>Claims about dates\<close>



section \<open>Facts about the database\<close>

lemma then_do_Inr: "then_do m f = Inr y \<longleftrightarrow> (\<exists>x. m = Inr x \<and> f x = Inr y)"
  by (cases m) (simp_all add: then_do_def)

lemma varchar255_Inr: "varchar255 s = Inr v \<Longrightarrow> v = take 255 s"
  by (auto simp: varchar255_def split: if_splits)

lemma varchar255_fits: "length s \<le> 255 \<Longrightarrow> varchar255 s = Inr s"
  by (simp add: varchar255_def)

lemma coerce_name_Inr: "coerce_name x = Inr v \<Longrightarrow> v = map_option (take 255) x"
  by (cases x) (auto simp: coerce_name_def then_do_Inr dest: varchar255_Inr)

lemma insert_location_Inr:
  "insert_location db x = Inr db' \<Longrightarrow>
   db' = db\<lparr>locations_table := locations_table db @
           [\<lparr>location_id = Suc (length (locations_table db)),
             location_name = map_option (take 255) x\<rparr>]\<rparr>"
  by (auto simp: insert_location_def then_do_Inr split: if_splits dest: coerce_name_Inr)

lemma fill_locations_Inr:
  "fill_locations_table db lst = Inr db' \<Longrightarrow>
   db' = db\<lparr>locations_table := locations_table db @
           location_rows (length (locations_table db)) lst\<rparr>"
  unfolding fill_locations_table_def
proof (induction lst arbitrary: db)
  case Nil
  then show ?case by simp
next
  case (Cons x xs)
  then obtain db1 where 1: "insert_location db x = Inr db1"
    and 2: "for_each insert_location db1 xs = Inr db'"
    by (auto simp: then_do_Inr)
  show ?case
    unfolding Cons.IH [OF 2] insert_location_Inr [OF 1] by simp
qed

lemma insert_area_Inr:
  "insert_area db x = Inr db' \<Longrightarrow>
   db' = db\<lparr>areas_table := areas_table db @
           [\<lparr>area_id = Suc (length (areas_table db)),
             area_name = map_option (take 255) x\<rparr>]\<rparr>"
  by (auto simp: insert_area_def then_do_Inr split: if_splits dest: coerce_name_Inr)

lemma fill_areas_Inr:
  "fill_areas_table db lst = Inr db' \<Longrightarrow>
   db' = db\<lparr>areas_table := areas_table db @ area_rows (length (areas_table db)) lst\<rparr>"
  unfolding fill_areas_table_def
proof (induction lst arbitrary: db)
  case Nil
  then show ?case by simp
next
  case (Cons x xs)
  then obtain db1 where 1: "insert_area db x = Inr db1"
    and 2: "for_each insert_area db1 xs = Inr db'"
    by (auto simp: then_do_Inr)
  show ?case
    unfolding Cons.IH [OF 2] insert_area_Inr [OF 1] by simp
qed

lemma uuid_like_fits: "uuid_like (take 255 m) \<Longrightarrow> take 255 m = m"
proof -
  assume "uuid_like (take 255 m)"
  then have "length (take 255 m) = 36" by (simp add: uuid_like_def)
  then have "length m \<le> 255" by (simp add: min_def split: if_splits)
  then show ?thesis by simp
qed

lemma insert_artist_Inr:
  assumes "insert_artist db area artist mb = Inr db'"
  shows "db' = db\<lparr>artists_table := artists_table db @
           [\<lparr>artist_id = Suc (length (artists_table db)), artist_area_id = area,
             artist_name = take 255 artist, mb_id = mb\<rparr>]\<rparr>"
proof -
  from assms obtain name mbid where
    n: "varchar255 artist = Inr name" and m: "coerce_name mb = Inr mbid" and
    ok: "mbid = None \<or> uuid_like (the mbid)" and
    r: "db' = db\<lparr>artists_table := artists_table db @
           [\<lparr>artist_id = Suc (length (artists_table db)), artist_area_id = area,
             artist_name = name, mb_id = mbid\<rparr>]\<rparr>"
    by (auto simp: insert_artist_def then_do_Inr split: if_splits)
  have "mbid = mb"
  proof (cases mb)
    case None
    then show ?thesis using coerce_name_Inr [OF m] by simp
  next
    case (Some x)
    then have "mbid = Some (take 255 x)" using coerce_name_Inr [OF m] by simp
    then show ?thesis using ok Some uuid_like_fits [of x] by simp
  qed
  then show ?thesis using r varchar255_Inr [OF n] by simp
qed

lemma fill_artists_Inr:
  "fill_artists_table db dicti = Inr db' \<Longrightarrow>
   db' = db\<lparr>artists_table := artists_table db @
           artist_rows (areas_table db) (length (artists_table db)) dicti\<rparr>"
  unfolding fill_artists_table_def
proof (induction dicti arbitrary: db)
  case Nil
  then show ?case by simp
next
  case (Cons item rest)
  obtain artist area mbid where item: "item = (artist, area, mbid)"
    by (cases item) auto
  have body: "artists_body db item =
      insert_artist db (lookup_area (areas_table db) area) artist mbid"
    by (simp add: artists_body_def item)
  from Cons.prems obtain db1 where
    1: "insert_artist db (lookup_area (areas_table db) area) artist mbid = Inr db1" and
    2: "for_each artists_body db1 rest = Inr db'"
    unfolding for_each.simps then_do_Inr body by blast
  show ?case
    unfolding Cons.IH [OF 2] insert_artist_Inr [OF 1] item by simp
qed

lemma insert_album_Inr:
  "insert_album aid db album = Inr db' \<Longrightarrow>
   db' = db\<lparr>albums_table := albums_table db @
           [\<lparr>album_id = Suc (length (albums_table db)), album_artist_id = aid,
             album_name = Some (take 255 album)\<rparr>]\<rparr>"
  by (auto simp: insert_album_def then_do_Inr split: if_splits dest: varchar255_Inr)

lemma albums_for_Inr:
  "for_each (insert_album aid) db names = Inr db' \<Longrightarrow>
   db' = db\<lparr>albums_table := albums_table db @
           album_rows_for aid (length (albums_table db)) names\<rparr>"
proof (induction names arbitrary: db)
  case Nil
  then show ?case by simp
next
  case (Cons x xs)
  then obtain db1 where 1: "insert_album aid db x = Inr db1"
    and 2: "for_each (insert_album aid) db1 xs = Inr db'"
    by (auto simp: then_do_Inr)
  show ?case
    unfolding Cons.IH [OF 2] insert_album_Inr [OF 1] by simp
qed

lemma length_album_rows_for: "length (album_rows_for aid k names) = length names"
  by (induction names arbitrary: k) auto

lemma fill_albums_Inr:
  "fill_albums_table db dicti = Inr db' \<Longrightarrow>
   db' = db\<lparr>albums_table := albums_table db @
           album_rows (artists_table db) (length (albums_table db)) dicti\<rparr>"
  unfolding fill_albums_table_def
proof (induction dicti arbitrary: db)
  case Nil
  then show ?case by simp
next
  case (Cons item rest)
  obtain artist names where item: "item = (artist, names)"
    by (cases item) auto
  have body: "albums_body db item =
      for_each (insert_album (lookup_artist (artists_table db) artist)) db names"
    by (simp add: albums_body_def item)
  from Cons.prems obtain db1 where
    1: "for_each (insert_album (lookup_artist (artists_table db) artist)) db names = Inr db1" and
    2: "for_each albums_body db1 rest = Inr db'"
    unfolding for_each.simps then_do_Inr body by blast
  show ?case
    unfolding Cons.IH [OF 2] albums_for_Inr [OF 1] item
    by (simp add: length_album_rows_for)
qed

lemma insert_concert_Inr:
  "insert_concert db l a d = Inr db' \<Longrightarrow>
   \<exists>day. d = Some day \<and>
     db' = db\<lparr>concerts_table := concerts_table db @
           [\<lparr>concert_id = Suc (length (concerts_table db)), concert_location_id = l,
             concert_artist_id = a, concert_date = day\<rparr>]\<rparr>"
  by (auto simp: insert_concert_def split: option.splits if_splits)

lemma fill_concerts_Inr:
  "fill_concerts_table db df = Inr db' \<Longrightarrow>
   (\<forall>c \<in> set df. c_date c \<noteq> None) \<and>
   db' = db\<lparr>concerts_table := concerts_table db @
           concert_rows (locations_table db) (artists_table db) (length (concerts_table db)) df\<rparr>"
  unfolding fill_concerts_table_def
proof (induction df arbitrary: db)
  case Nil
  then show ?case by simp
next
  case (Cons c rest)
  have body: "concerts_body db c =
      insert_concert db (lookup_location (locations_table db) (Some (c_location c)))
          (lookup_artist (artists_table db) (c_artist c)) (c_date c)"
    by (simp add: concerts_body_def)
  from Cons.prems obtain db1 where
    1: "insert_concert db (lookup_location (locations_table db) (Some (c_location c)))
          (lookup_artist (artists_table db) (c_artist c)) (c_date c) = Inr db1" and
    2: "for_each concerts_body db1 rest = Inr db'"
    unfolding for_each.simps then_do_Inr body by blast
  from insert_concert_Inr [OF 1] obtain day where d: "c_date c = Some day" and
    db1: "db1 = db\<lparr>concerts_table := concerts_table db @
           [\<lparr>concert_id = Suc (length (concerts_table db)),
             concert_location_id = lookup_location (locations_table db) (Some (c_location c)),
             concert_artist_id = lookup_artist (artists_table db) (c_artist c),
             concert_date = day\<rparr>]\<rparr>"
    by blast
  show ?case
    using Cons.IH [OF 2] unfolding db1 by (simp add: d)
qed

lemma lookup_location_None:
  "lookup_location rows name = None \<longleftrightarrow>
   (name = None \<or> (\<forall>r \<in> set rows. location_name r \<noteq> name))"
  by (cases name) (auto simp: lookup_location_def find_None_iff)

lemma lookup_area_None:
  "lookup_area rows name = None \<longleftrightarrow>
   (name = None \<or> (\<forall>r \<in> set rows. area_name r \<noteq> name))"
  by (cases name) (auto simp: lookup_area_def find_None_iff)

lemma lookup_artist_None:
  "lookup_artist rows name = None \<longleftrightarrow> (\<forall>r \<in> set rows. artist_name r \<noteq> name)"
  by (auto simp: lookup_artist_def find_None_iff)

lemma lookup_location_Some:
  "lookup_location rows name = Some i \<Longrightarrow>
   \<exists>r \<in> set rows. location_id r = i \<and> location_name r = name"
  by (cases name) (auto simp: lookup_location_def find_Some_iff)

lemma lookup_area_Some:
  "lookup_area rows name = Some i \<Longrightarrow>
   \<exists>r \<in> set rows. area_id r = i \<and> area_name r = name"
  by (cases name) (auto simp: lookup_area_def find_Some_iff)

lemma lookup_artist_Some:
  "lookup_artist rows name = Some i \<Longrightarrow>
   \<exists>r \<in> set rows. artist_id r = i \<and> artist_name r = name"
  by (auto simp: lookup_artist_def find_Some_iff)

lemma lookup_location_key:
  "lookup_location rows name = None \<or>
   lookup_location rows name \<in> Some ` location_id ` set rows"
  using lookup_location_Some [of rows name] by (cases "lookup_location rows name") auto

lemma lookup_area_key:
  "lookup_area rows name = None \<or> lookup_area rows name \<in> Some ` area_id ` set rows"
  using lookup_area_Some [of rows name] by (cases "lookup_area rows name") auto

lemma lookup_artist_key:
  "lookup_artist rows name = None \<or> lookup_artist rows name \<in> Some ` artist_id ` set rows"
  using lookup_artist_Some [of rows name] by (cases "lookup_artist rows name") auto

lemma coerce_name_uuid:
  "mb = None \<or> uuid_like (the mb) \<Longrightarrow> coerce_name mb = Inr mb"
  by (cases mb) (auto simp: coerce_name_def then_do_def varchar255_def uuid_like_def)

lemma insert_artist_ok:
  assumes "length artist \<le> 255" and "mb = None \<or> uuid_like (the mb)"
  shows "insert_artist db (lookup_area (areas_table db) area) artist mb =
         Inr (db\<lparr>artists_table := artists_table db @
           [\<lparr>artist_id = Suc (length (artists_table db)),
             artist_area_id = lookup_area (areas_table db) area,
             artist_name = artist, mb_id = mb\<rparr>]\<rparr>)"
  using assms lookup_area_key [of "areas_table db" area]
  by (auto simp: insert_artist_def then_do_def varchar255_fits coerce_name_uuid)

lemma insert_concert_ok:
  "insert_concert db (lookup_location (locations_table db) l)
       (lookup_artist (artists_table db) a) (Some day) =
   Inr (db\<lparr>concerts_table := concerts_table db @
           [\<lparr>concert_id = Suc (length (concerts_table db)),
             concert_location_id = lookup_location (locations_table db) l,
             concert_artist_id = lookup_artist (artists_table db) a,
             concert_date = day\<rparr>]\<rparr>)"
  using lookup_location_key [of "locations_table db" l]
    lookup_artist_key [of "artists_table db" a]
  by (auto simp: insert_concert_def)

lemma take_fits: "length s \<le> 255 \<Longrightarrow> take 255 s = s"
  by simp

lemma fill_artists_ok:
  assumes "\<forall>item \<in> set dicti. length (fst item) \<le> 255 \<and>
             (snd (snd item) = None \<or> uuid_like (the (snd (snd item))))"
  shows "fill_artists_table db dicti =
         Inr (db\<lparr>artists_table := artists_table db @
           artist_rows (areas_table db) (length (artists_table db)) dicti\<rparr>)"
  using assms unfolding fill_artists_table_def
proof (induction dicti arbitrary: db)
  case Nil
  show ?case by simp
next
  case (Cons item rest)
  obtain artist area mbid where item: "item = (artist, area, mbid)"
    by (cases item) auto
  have fit: "length artist \<le> 255" and mb: "mbid = None \<or> uuid_like (the mbid)"
    using Cons.prems by (simp_all add: item)
  have rest: "\<forall>item \<in> set rest. length (fst item) \<le> 255 \<and>
             (snd (snd item) = None \<or> uuid_like (the (snd (snd item))))"
    using Cons.prems by simp
  let ?db1 = "db\<lparr>artists_table := artists_table db @
           [\<lparr>artist_id = Suc (length (artists_table db)),
             artist_area_id = lookup_area (areas_table db) area,
             artist_name = artist, mb_id = mbid\<rparr>]\<rparr>"
  have body: "artists_body db item = Inr ?db1"
    using insert_artist_ok [OF fit mb, of db area] by (simp add: artists_body_def item)
  have "for_each artists_body db (item # rest) = for_each artists_body ?db1 rest"
    by (simp add: body then_do_def)
  also have "\<dots> = Inr (?db1\<lparr>artists_table := artists_table ?db1 @
           artist_rows (areas_table ?db1) (length (artists_table ?db1)) rest\<rparr>)"
    by (rule Cons.IH [OF rest])
  finally show ?case
    using fit by (simp add: item)
qed

lemma fill_concerts_ok:
  assumes "\<forall>c \<in> set df. c_date c \<noteq> None"
  shows "fill_concerts_table db df =
         Inr (db\<lparr>concerts_table := concerts_table db @
           concert_rows (locations_table db) (artists_table db) (length (concerts_table db)) df\<rparr>)"
  using assms unfolding fill_concerts_table_def
proof (induction df arbitrary: db)
  case Nil
  show ?case by simp
next
  case (Cons c rest)
  obtain day where d: "c_date c = Some day"
    using Cons.prems by auto
  have rest: "\<forall>c \<in> set rest. c_date c \<noteq> None"
    using Cons.prems by simp
  let ?db1 = "db\<lparr>concerts_table := concerts_table db @
           [\<lparr>concert_id = Suc (length (concerts_table db)),
             concert_location_id = lookup_location (locations_table db) (Some (c_location c)),
             concert_artist_id = lookup_artist (artists_table db) (c_artist c),
             concert_date = day\<rparr>]\<rparr>"
  have body: "concerts_body db c = Inr ?db1"
    using insert_concert_ok [of db "Some (c_location c)" "c_artist c" day]
    by (simp add: concerts_body_def d)
  have "for_each concerts_body db (c # rest) = for_each concerts_body ?db1 rest"
    by (simp add: body then_do_def)
  also have "\<dots> = Inr (?db1\<lparr>concerts_table := concerts_table ?db1 @
           concert_rows (locations_table ?db1) (artists_table ?db1)
             (length (concerts_table ?db1)) rest\<rparr>)"
    by (rule Cons.IH [OF rest])
  finally show ?case
    by (simp add: d)
qed

section \<open>Claims about the database\<close>

text \<open>
  C3: a lookup miss never makes a fill operation raise. \<open>fill_concerts_table\<close> succeeds on
  every table whose dates are dates, and \<open>fill_artists_table\<close> on every dict whose names
  fit their column and whose \<open>mb_id\<close>s pass the CHECK; the foreign keys of the rows they add
  are the results of the lookups, and a lookup of a name that no row of the parent table
  has exactly is \<open>None\<close>, stored as NULL.
\<close>

theorem fill_lookup_miss_null:
  "((\<forall>c \<in> set df. c_date c \<noteq> None) \<longrightarrow>
      fill_concerts_table db df =
        Inr (db\<lparr>concerts_table := concerts_table db @
          concert_rows (locations_table db) (artists_table db) (length (concerts_table db)) df\<rparr>)) \<and>
   ((\<forall>item \<in> set dicti. length (fst item) \<le> 255 \<and>
        (snd (snd item) = None \<or> uuid_like (the (snd (snd item))))) \<longrightarrow>
      fill_artists_table db dicti =
        Inr (db\<lparr>artists_table := artists_table db @
          artist_rows (areas_table db) (length (artists_table db)) dicti\<rparr>)) \<and>
   ((\<forall>r \<in> set (locations_table db). location_name r \<noteq> Some l) \<longrightarrow>
      lookup_location (locations_table db) (Some l) = None) \<and>
   ((\<forall>r \<in> set (artists_table db). artist_name r \<noteq> a) \<longrightarrow>
      lookup_artist (artists_table db) a = None) \<and>
   ((\<forall>r \<in> set (areas_table db). area_name r \<noteq> Some ar) \<longrightarrow>
      lookup_area (areas_table db) (Some ar) = None)"
  by (simp add: fill_concerts_ok fill_artists_ok lookup_location_None lookup_artist_None
        lookup_area_None)

theorem fill_lookup_miss_null_witness:
  "fill_concerts_table sample_db stray_concerts =
     Inr (sample_db\<lparr>concerts_table :=
       [\<lparr>concert_id = 1, concert_location_id = None, concert_artist_id = None,
         concert_date = \<lparr>dt_year = 2024, dt_month = 11, dt_day = 1\<rparr>\<rparr>]\<rparr>) \<and>
   fill_artists_table sample_db stray_artists =
     Inr (sample_db\<lparr>artists_table :=
       [\<lparr>artist_id = 1, artist_area_id = None, artist_name = ''Powerwolf'', mb_id = None\<rparr>]\<rparr>)"
  using fill_lookup_miss_null [of stray_concerts sample_db stray_artists "''Gasometer''"
      "''Powerwolf''" "''Germany''"]
  by (simp add: sample_db_def stray_concerts_def stray_artists_def)

end
